theory Spec2Isabelle
  imports Complex_Main "HOL-Library.Sublist"
begin

section \<open>Numbers\<close>

text \<open>
  A JavaScript \<^verbatim>\<open>number\<close> is an IEEE double. The great-circle distance
  (\<^verbatim>\<open>Math.sin\<close>, \<^verbatim>\<open>Math.cos\<close>, \<^verbatim>\<open>Math.sqrt\<close>, \<^verbatim>\<open>Math.atan2\<close>) is modelled by exact
  arithmetic on \<^typ>\<open>real\<close>, without rounding. The special values (the literal
  \<^verbatim>\<open>Infinity\<close> as the start of a running minimum, the \<^verbatim>\<open>NaN\<close> that \<^verbatim>\<open>parseFloat\<close>
  returns and \<^verbatim>\<open>isNaN\<close> tests, the \<^verbatim>\<open>NaN\<close> of a quotient \<^verbatim>\<open>0 / 0\<close>) are values of the
  type \<open>number\<close>, and the projection on a segment is modelled in the rounded arithmetic of
  doubles.
\<close>

datatype number = Num real | Infinity | NegInfinity | NaN

definition isNaN :: "number \<Rightarrow> bool" where
  "isNaN n = (n = NaN)"

text \<open>The comparison \<^verbatim>\<open>a < b\<close> of two numbers: false as soon as one side is NaN.\<close>

fun num_less :: "number \<Rightarrow> number \<Rightarrow> bool" where
  "num_less NaN _ = False"
| "num_less _ NaN = False"
| "num_less (Num a) (Num b) = (a < b)"
| "num_less (Num _) Infinity = True"
| "num_less NegInfinity (Num _) = True"
| "num_less NegInfinity Infinity = True"
| "num_less _ _ = False"

text \<open>\<^verbatim>\<open>a > b\<close> is \<^verbatim>\<open>b < a\<close>.\<close>

definition num_greater :: "number \<Rightarrow> number \<Rightarrow> bool" where
  "num_greater a b = num_less b a"

text \<open>\<^verbatim>\<open>Math.min\<close> and \<^verbatim>\<open>Math.max\<close> of two arguments: NaN if either is NaN.\<close>

definition Math_min :: "number \<Rightarrow> number \<Rightarrow> number" where
  "Math_min a b = (if isNaN a \<or> isNaN b then NaN else if num_less b a then b else a)"

definition Math_max :: "number \<Rightarrow> number \<Rightarrow> number" where
  "Math_max a b = (if isNaN a \<or> isNaN b then NaN else if num_less a b then b else a)"

text \<open>Negation and the sum \<^verbatim>\<open>a + b\<close> of two numbers, without rounding.\<close>

definition num_negate :: "number \<Rightarrow> number" where
  "num_negate n =
     (case n of Num x \<Rightarrow> Num (- x) | Infinity \<Rightarrow> NegInfinity | NegInfinity \<Rightarrow> Infinity
      | NaN \<Rightarrow> NaN)"

fun num_add :: "number \<Rightarrow> number \<Rightarrow> number" where
  "num_add NaN _ = NaN"
| "num_add _ NaN = NaN"
| "num_add (Num a) (Num b) = Num (a + b)"
| "num_add Infinity NegInfinity = NaN"
| "num_add NegInfinity Infinity = NaN"
| "num_add Infinity _ = Infinity"
| "num_add _ Infinity = Infinity"
| "num_add NegInfinity _ = NegInfinity"
| "num_add _ NegInfinity = NegInfinity"

subsection \<open>Arithmetic on doubles\<close>

text \<open>
  Where a result of the source depends on underflow or overflow, the four operations are
  modelled as the standard defines them on doubles: the exact result, rounded to the
  nearest double, ties to the even significand. \<open>double_round\<close> is that rounding: a double
  is a multiple of \<open>2^(e - 52)\<close>, where \<open>2^e\<close> is the power of two at or below the magnitude
  and \<open>e\<close> is at least \<open>-1022\<close> (below \<open>2^-1022\<close> the doubles are the multiples of
  \<open>2^-1074\<close>), and a result that rounds to \<open>2^1024\<close> or beyond is infinite. The two zeros
  are one value \<open>Num 0\<close>, which divides as \<^verbatim>\<open>+0\<close> does.
\<close>

definition round_half_even :: "real \<Rightarrow> int" where
  "round_half_even x =
     (let f = \<lfloor>x\<rfloor>; d = x - of_int f
      in if d < 1 / 2 then f else if 1 / 2 < d then f + 1 else if even f then f else f + 1)"

definition double_round :: "real \<Rightarrow> number" where
  "double_round x =
     (if x = 0 then Num 0
      else
        let e = max (- 1022) \<lfloor>log 2 \<bar>x\<bar>\<rfloor>;
            ulp = 2 powi (e - 52);
            r = of_int (round_half_even (x / ulp)) * ulp
        in if 2 ^ 1024 \<le> r then Infinity
           else if r \<le> - (2 ^ 1024) then NegInfinity
           else Num r)"




fun dbl_div :: "number \<Rightarrow> number \<Rightarrow> number" where
  "dbl_div NaN _ = NaN"
| "dbl_div _ NaN = NaN"
| "dbl_div (Num a) (Num b) =
     (if b = 0 then (if 0 < a then Infinity else if a < 0 then NegInfinity else NaN)
      else double_round (a / b))"
| "dbl_div (Num a) Infinity = Num 0"
| "dbl_div (Num a) NegInfinity = Num 0"
| "dbl_div Infinity (Num b) = (if 0 \<le> b then Infinity else NegInfinity)"
| "dbl_div NegInfinity (Num b) = (if 0 \<le> b then NegInfinity else Infinity)"
| "dbl_div _ _ = NaN"

text \<open>
  \<^verbatim>\<open>Math.atan2(y, x)\<close> on finite arguments: the angle of the point \<open>(x, y)\<close> in
  \<open>(-\<pi>, \<pi>]\<close>.
\<close>

definition Math_atan2 :: "real \<Rightarrow> real \<Rightarrow> real" where
  "Math_atan2 y x =
     (if 0 < x then arctan (y / x)
      else if x < 0 then (if 0 \<le> y then arctan (y / x) + pi else arctan (y / x) - pi)
      else if 0 < y then pi / 2
      else if y < 0 then - (pi / 2)
      else 0)"

section \<open>Data model\<close>

text \<open>
  \<^verbatim>\<open>GPXData\<close>: coordinates are \<^verbatim>\<open>[lon, lat]\<close> pairs. The record is polymorphic in the
  type of its numbers: the track parser produces \<open>number GPXData\<close> (its bounds start at
  \<^verbatim>\<open>Infinity\<close>), the route functions of the water-point service work on a
  \<open>real GPXData\<close>, a route all of whose numbers are finite.
\<close>

record 'n Bounds =
  north :: 'n
  south :: 'n
  east :: 'n
  west :: 'n

record 'n GPXData =
  name :: "string option"
  coordinates :: "('n \<times> 'n) list"
  bounds :: "'n Bounds"
  totalDistance :: 'n

section \<open>Geometry kernel\<close>

text \<open>\<^verbatim>\<open>calculateDistance(lat1, lon1, lat2, lon2)\<close>: the haversine formula.\<close>

definition calculateDistance :: "real \<Rightarrow> real \<Rightarrow> real \<Rightarrow> real \<Rightarrow> real" where
  "calculateDistance lat1 lon1 lat2 lon2 =
     (let R = 6371000;
          dLat = (lat2 - lat1) * pi / 180;
          dLon = (lon2 - lon1) * pi / 180;
          a = sin (dLat / 2) * sin (dLat / 2) +
              cos (lat1 * pi / 180) * cos (lat2 * pi / 180) *
              sin (dLon / 2) * sin (dLon / 2);
          c = 2 * Math_atan2 (sqrt a) (sqrt (1 - a))
      in R * c)"

text \<open>
  \<^verbatim>\<open>calculateDistance\<close> on numbers: with an argument that is not finite, \<^verbatim>\<open>Math.sin\<close> or
  \<^verbatim>\<open>Math.cos\<close> of an infinite or NaN angle is NaN, and so is the result. The track parser
  has its own copy of the function, with the same body.
\<close>

definition calculateDistance_number :: "number \<Rightarrow> number \<Rightarrow> number \<Rightarrow> number \<Rightarrow> number" where
  "calculateDistance_number lat1 lon1 lat2 lon2 =
     (case (lat1, lon1, lat2, lon2) of
        (Num a1, Num o1, Num a2, Num o2) \<Rightarrow> Num (calculateDistance a1 o1 a2 o2)
      | _ \<Rightarrow> NaN)"








text \<open>\<^verbatim>\<open>calculateDistanceFromStart\<close>.\<close>

definition calculateDistanceFromStart :: "real \<Rightarrow> real \<Rightarrow> real GPXData \<Rightarrow> real" where
  "calculateDistanceFromStart lat lon gpxData =
     (case coordinates gpxData of
        [] \<Rightarrow> 0
      | startPoint # _ \<Rightarrow> calculateDistance (snd startPoint) (fst startPoint) lat lon)"

text \<open>
  \<^verbatim>\<open>calculateMinDistanceFromRoute\<close>: the running minimum over the vertices of the route,
  starting from \<^verbatim>\<open>Infinity\<close>.
\<close>

definition calculateMinDistanceFromRoute :: "real \<Rightarrow> real \<Rightarrow> real GPXData \<Rightarrow> number" where
  "calculateMinDistanceFromRoute lat lon gpxData =
     fold (\<lambda>coord minDistance.
             Math_min minDistance (Num (calculateDistance (snd coord) (fst coord) lat lon)))
          (coordinates gpxData) Infinity"

section \<open>Strings\<close>

text \<open>\<^verbatim>\<open>s.split(sep)\<close> for a one-character separator: never the empty array.\<close>

fun split_on :: "char \<Rightarrow> string \<Rightarrow> string list" where
  "split_on sep [] = [[]]"
| "split_on sep (c # cs) =
     (if c = sep then [] # split_on sep cs
      else (case split_on sep cs of p # ps \<Rightarrow> (c # p) # ps | [] \<Rightarrow> [[c]]))"

text \<open>\<^verbatim>\<open>parts.join(sep)\<close>.\<close>

fun join :: "string \<Rightarrow> string list \<Rightarrow> string" where
  "join sep [] = []"
| "join sep [p] = p"
| "join sep (p # q # ps) = p @ sep @ join sep (q # ps)"

text \<open>The decimal digits of a natural number, and of an integer with its sign.\<close>

definition digit_char :: "nat \<Rightarrow> char" where
  "digit_char d = ''0123456789'' ! d"

fun nat_digits :: "nat \<Rightarrow> string" where
  "nat_digits n =
     (if n < 10 then [digit_char n] else nat_digits (n div 10) @ [digit_char (n mod 10)])"

declare nat_digits.simps [simp del]

definition int_toString :: "int \<Rightarrow> string" where
  "int_toString i = (if i < 0 then ''-'' @ nat_digits (nat (- i)) else nat_digits (nat i))"

section \<open>Water points and filter presets\<close>

datatype water_type = Fountain | Well | Spring | Tap | Other

text \<open>
  \<^verbatim>\<open>WaterPoint\<close>. \<open>distanceFromRoute\<close> is a \<open>number\<close>: it is the running minimum of
  \<open>calculateMinDistanceFromRoute\<close>, which is \<^verbatim>\<open>Infinity\<close> on a route without coordinates.
\<close>

record WaterPoint =
  wp_id :: string
  wp_lat :: real
  wp_lon :: real
  wp_tags :: "string \<rightharpoonup> string"
  distanceFromStart :: real
  distanceFromRoute :: number
  wp_type :: water_type

text \<open>
  \<^verbatim>\<open>WaterFilterPreset\<close> and its \<^verbatim>\<open>filters\<close>; each filter is optional
  (\<open>None\<close> is an absent property).
\<close>

record WaterFilters =
  drinking_water :: "string list option"
  exclude_tags :: "string list option"
  include_types :: "string list option"
  access :: "string list option"

record WaterFilterPreset =
  preset_id :: string
  preset_name :: string
  description :: string
  filters :: WaterFilters

definition no_filters :: WaterFilters where
  "no_filters =
     \<lparr>drinking_water = None, exclude_tags = None, include_types = None, access = None\<rparr>"

definition WATER_FILTER_PRESETS :: "WaterFilterPreset list" where
  "WATER_FILTER_PRESETS =
     [\<lparr>preset_id = ''potable-only'', preset_name = ''Potable Water Only'',
       description = ''Safe drinking water sources only'',
       filters = no_filters\<lparr>drinking_water := Some [''yes''],
                                exclude_tags := Some [''fee=yes'']\<rparr>\<rparr>,
      \<lparr>preset_id = ''free-potable'', preset_name = ''Free Potable Water'',
       description = ''Free drinking water only'',
       filters = no_filters\<lparr>drinking_water := Some [''yes''],
                                exclude_tags := Some [''fee=yes'']\<rparr>\<rparr>,
      \<lparr>preset_id = ''all-potable'', preset_name = ''All Potable Water'',
       description = ''All drinking water (including paid)'',
       filters = no_filters\<lparr>drinking_water := Some [''yes'']\<rparr>\<rparr>,
      \<lparr>preset_id = ''emergency-sources'', preset_name = ''Emergency Sources'',
       description = ''All water sources including wells/springs'',
       filters = no_filters\<lparr>include_types := Some [''fountain'', ''well'', ''spring'', ''tap''],
                                access := Some [''public'', ''yes'']\<rparr>\<rparr>,
      \<lparr>preset_id = ''all-sources'', preset_name = ''All Water Sources'',
       description = ''All water points (including non-potable)'',
       filters = no_filters\<rparr>]"

text \<open>
  \<^verbatim>\<open>WATER_FILTER_PRESETS.find(p => p.id === filterPreset) || WATER_FILTER_PRESETS[0]\<close>,
  as \<open>findWaterPoints\<close> selects the preset.
\<close>

definition select_preset :: "string \<Rightarrow> WaterFilterPreset" where
  "select_preset filterPreset =
     (case find (\<lambda>p. preset_id p = filterPreset) WATER_FILTER_PRESETS of
        Some p \<Rightarrow> p
      | None \<Rightarrow> hd WATER_FILTER_PRESETS)"

text \<open>
  The element that \<open>processWaterPoint\<close> receives:
  \<^verbatim>\<open>{ lat: number; lon: number; tags?: Record<string, string>; id: number }\<close>.
  Identifiers are integers, as those of the remote source are.
\<close>

record node =
  node_lat :: real
  node_lon :: real
  node_tags :: "(string \<rightharpoonup> string) option"
  node_id :: int

section \<open>Point classifier and filter\<close>

text \<open>The chain that determines \<^verbatim>\<open>type\<close> at the start of \<open>processWaterPoint\<close>.\<close>

definition classify :: "(string \<rightharpoonup> string) \<Rightarrow> water_type" where
  "classify tgs =
     (if tgs ''amenity'' = Some ''drinking_water'' then Fountain
      else if tgs ''amenity'' = Some ''fountain'' then Fountain
      else if tgs ''amenity'' = Some ''water_point'' then Tap
      else if tgs ''amenity'' = Some ''water_tap'' then Tap
      else if tgs ''man_made'' = Some ''water_well'' then Well
      else if tgs ''natural'' = Some ''spring'' then Spring
      else Other)"

text \<open>
  One round of the loop over \<^verbatim>\<open>exclude_tags\<close>:
  \<^verbatim>\<open>const [key, value] = excludeTag.split('='); tags[key] === value\<close>. A missing second
  part is \<^verbatim>\<open>undefined\<close>, which is what a missing tag reads as.
\<close>

definition exclude_tag_matches :: "(string \<rightharpoonup> string) \<Rightarrow> string \<Rightarrow> bool" where
  "exclude_tag_matches tgs excludeTag =
     (case split_on (CHR ''='') excludeTag of
        [] \<Rightarrow> tgs [] = None
      | [key] \<Rightarrow> tgs key = None
      | key # val # _ \<Rightarrow> tgs key = Some val)"

definition exclude_rule :: "WaterFilters \<Rightarrow> (string \<rightharpoonup> string) \<Rightarrow> bool" where
  "exclude_rule fs tgs =
     (case exclude_tags fs of
        None \<Rightarrow> False
      | Some excl \<Rightarrow> list_ex (exclude_tag_matches tgs) excl)"

text \<open>
  \<^verbatim>\<open>if (preset.filters.access && tags.access) { if (!...includes(tags.access)) return null }\<close>:
  an array is always truthy, a string is truthy when it is not empty.
\<close>

definition access_rule :: "WaterFilters \<Rightarrow> (string \<rightharpoonup> string) \<Rightarrow> bool" where
  "access_rule fs tgs =
     (case access fs of
        None \<Rightarrow> False
      | Some allowed \<Rightarrow>
          (case tgs ''access'' of
             None \<Rightarrow> False
           | Some v \<Rightarrow> v \<noteq> [] \<and> v \<notin> set allowed))"

definition drinking_water_rule :: "WaterFilters \<Rightarrow> (string \<rightharpoonup> string) \<Rightarrow> bool" where
  "drinking_water_rule fs tgs =
     (case drinking_water fs of
        None \<Rightarrow> False
      | Some allowed \<Rightarrow>
          (case tgs ''drinking_water'' of
             None \<Rightarrow> False
           | Some drinkingWater \<Rightarrow> drinkingWater \<noteq> [] \<and> drinkingWater \<notin> set allowed))"

definition processWaterPoint ::
  "node \<Rightarrow> real GPXData \<Rightarrow> real \<Rightarrow> WaterFilterPreset \<Rightarrow> WaterPoint option" where
  "processWaterPoint element gpxData bufferDistance preset =
     (let tgs = (case node_tags element of None \<Rightarrow> Map.empty | Some t \<Rightarrow> t);
          type = classify tgs;
          dFromStart = calculateDistanceFromStart (node_lat element) (node_lon element) gpxData;
          dFromRoute = calculateMinDistanceFromRoute (node_lat element) (node_lon element) gpxData
      in if num_greater dFromRoute (Num bufferDistance) then None
         else if exclude_rule (filters preset) tgs then None
         else if access_rule (filters preset) tgs then None
         else if drinking_water_rule (filters preset) tgs then None
         else Some \<lparr>wp_id = int_toString (node_id element), wp_lat = node_lat element,
                     wp_lon = node_lon element, wp_tags = tgs, distanceFromStart = dFromStart,
                     distanceFromRoute = dFromRoute, wp_type = type\<rparr>)"

section \<open>Remote query\<close>

text \<open>
  \<open>buildOverpassQuery\<close>. The template literal renders numbers with the platform's
  number-to-string conversion, which depends on the binary representation of the double; it
  is the parameter \<open>numToString\<close>.
\<close>

definition bbox_string :: "(real \<Rightarrow> string) \<Rightarrow> real Bounds \<Rightarrow> real \<Rightarrow> string" where
  "bbox_string numToString bnds padding =
     numToString (south bnds - padding) @ '','' @ numToString (west bnds - padding) @ '','' @
     numToString (north bnds + padding) @ '','' @ numToString (east bnds + padding)"

definition potable_queries :: "string \<Rightarrow> string list" where
  \<open>potable_queries bbox =
     [''node["amenity"="drinking_water"]["drinking_water"!="no"]('' @ bbox @ '');'',
      ''node["amenity"="fountain"]["drinking_water"="yes"]('' @ bbox @ '');'',
      ''node["amenity"="water_point"]["drinking_water"="yes"]('' @ bbox @ '');'',
      ''node["amenity"="water_tap"]["drinking_water"="yes"]('' @ bbox @ '');'']\<close>

definition all_queries :: "string \<Rightarrow> string list" where
  \<open>all_queries bbox =
     [''node["amenity"="drinking_water"]('' @ bbox @ '');'',
      ''node["amenity"="fountain"]('' @ bbox @ '');'',
      ''node["amenity"="water_point"]('' @ bbox @ '');'',
      ''node["man_made"="water_well"]('' @ bbox @ '');'',
      ''node["natural"="spring"]('' @ bbox @ '');'',
      ''node["amenity"="water_tap"]('' @ bbox @ '');'']\<close>

definition newline :: string where
  "newline = [CHR 0x0A]"

definition buildOverpassQuery ::
  "(real \<Rightarrow> string) \<Rightarrow> real GPXData \<Rightarrow> real \<Rightarrow> WaterFilterPreset \<Rightarrow> string" where
  "buildOverpassQuery numToString gpxData bufferDistance preset =
     (let padding = bufferDistance / 111000;
          bbox = bbox_string numToString (bounds gpxData) padding;
          queries =
            (if (case drinking_water (filters preset) of
                   None \<Rightarrow> False
                 | Some vs \<Rightarrow> ''yes'' \<in> set vs)
             then potable_queries bbox
             else all_queries bbox)
      in newline @ ''    [out:json][timeout:30];'' @ newline @
         ''    ('' @ newline @
         ''      '' @ join (newline @ ''      '') queries @ newline @
         ''    );'' @ newline @
         ''    out geom;'' @ newline @
         ''  '')"

section \<open>Track parser\<close>

text \<open>
  \<^verbatim>\<open>parseFloat\<close> is the platform's. It is modelled from its definition in the language
  standard: leading white space is dropped, then the longest prefix that is a decimal
  literal (an optional sign, then \<^verbatim>\<open>Infinity\<close> or digits with an optional fraction and an
  optional exponent) is converted, and the result is \<^verbatim>\<open>NaN\<close> when there is no such
  prefix. The value of the literal is exact (no rounding to a double, no overflow to
  \<^verbatim>\<open>Infinity\<close>); white space is the ASCII white space.
\<close>

definition is_space :: "char \<Rightarrow> bool" where
  "is_space c = (c \<in> set [CHR 0x09, CHR 0x0A, CHR 0x0B, CHR 0x0C, CHR 0x0D, CHR 0x20])"

definition is_digit :: "char \<Rightarrow> bool" where
  "is_digit c = (c \<in> set ''0123456789'')"

definition digit_value :: "char \<Rightarrow> nat" where
  "digit_value c = length (takeWhile (\<lambda>d. d \<noteq> c) ''0123456789'')"

definition digits_value :: "string \<Rightarrow> nat" where
  "digits_value ds = foldl (\<lambda>a c. 10 * a + digit_value c) 0 ds"

definition exponent_value :: "string \<Rightarrow> int" where
  "exponent_value r =
     (case r of
        [] \<Rightarrow> 0
      | c # r1 \<Rightarrow>
          if c = CHR ''e'' \<or> c = CHR ''E''
          then (case r1 of
                  [] \<Rightarrow> 0
                | d # r2 \<Rightarrow>
                    if d = CHR ''+'' then int (digits_value (takeWhile is_digit r2))
                    else if d = CHR ''-'' then - int (digits_value (takeWhile is_digit r2))
                    else int (digits_value (takeWhile is_digit r1)))
          else 0)"

definition scale10 :: "real \<Rightarrow> int \<Rightarrow> real" where
  "scale10 x e = (if 0 \<le> e then x * 10 ^ nat e else x / 10 ^ nat (- e))"

definition unsigned_literal :: "string \<Rightarrow> number" where
  "unsigned_literal u =
     (if prefix ''Infinity'' u then Infinity
      else
        let ip = takeWhile is_digit u;
            r1 = dropWhile is_digit u;
            fp = (case r1 of
                    [] \<Rightarrow> []
                  | c # r \<Rightarrow> if c = CHR ''.'' then takeWhile is_digit r else []);
            r2 = (case r1 of
                    [] \<Rightarrow> []
                  | c # r \<Rightarrow> if c = CHR ''.'' then dropWhile is_digit r else r1)
        in if ip = [] \<and> fp = [] then NaN
           else Num (scale10 (real (digits_value ip) + real (digits_value fp) / 10 ^ length fp)
                       (exponent_value r2)))"

definition parseFloat :: "string \<Rightarrow> number" where
  "parseFloat s =
     (case dropWhile is_space s of
        [] \<Rightarrow> NaN
      | c # u \<Rightarrow>
          if c = CHR ''-'' then num_negate (unsigned_literal u)
          else if c = CHR ''+'' then unsigned_literal u
          else unsigned_literal (c # u))"

text \<open>
  The document after \<^verbatim>\<open>DOMParser.parseFromString\<close>: whether it holds a
  \<^verbatim>\<open>parsererror\<close> element, its \<^verbatim>\<open>trkpt\<close> and \<^verbatim>\<open>rtept\<close> elements in document order
  with their \<^verbatim>\<open>lat\<close> and \<^verbatim>\<open>lon\<close> attributes (\<open>None\<close> when the attribute is missing), and
  the text of the first \<^verbatim>\<open>trk > name\<close>, \<^verbatim>\<open>rte > name\<close> and \<^verbatim>\<open>metadata > name\<close> elements
  (\<open>None\<close> when there is none).
\<close>

record point_element =
  lat_attr :: "string option"
  lon_attr :: "string option"

record xml_document =
  parsererror :: bool
  trkpts :: "point_element list"
  rtepts :: "point_element list"
  trk_name :: "string option"
  rte_name :: "string option"
  metadata_name :: "string option"

datatype parse_error = InvalidXmlFormat | NoTrackOrRoutePoints | NoValidCoordinates

text \<open>\<^verbatim>\<open>point.getAttribute(a) || '0'\<close>: a missing or empty attribute reads as \<^verbatim>\<open>'0'\<close>.\<close>

definition attribute_or_zero :: "string option \<Rightarrow> string" where
  "attribute_or_zero a = (case a of None \<Rightarrow> ''0'' | Some s \<Rightarrow> if s = [] then ''0'' else s)"

text \<open>
  The body of the \<^verbatim>\<open>forEach\<close> over the points, on the state
  \<open>(coordinates, minLat, maxLat, minLon, maxLon)\<close>.
\<close>

definition point_step ::
  "point_element \<Rightarrow> (number \<times> number) list \<times> number \<times> number \<times> number \<times> number \<Rightarrow>
   (number \<times> number) list \<times> number \<times> number \<times> number \<times> number" where
  "point_step point state =
     (case state of (coords, minLat, maxLat, minLon, maxLon) \<Rightarrow>
        let lat = parseFloat (attribute_or_zero (lat_attr point));
            lon = parseFloat (attribute_or_zero (lon_attr point))
        in if \<not> isNaN lat \<and> \<not> isNaN lon
           then (coords @ [(lon, lat)], Math_min minLat lat, Math_max maxLat lat,
                 Math_min minLon lon, Math_max maxLon lon)
           else state)"

text \<open>The loop that sums the segment lengths, \<open>i\<close> from 1.\<close>

definition total_distance :: "(number \<times> number) list \<Rightarrow> number" where
  "total_distance coords =
     fold (\<lambda>i totalDistance.
             num_add totalDistance
               (calculateDistance_number (snd (coords ! (i - 1))) (fst (coords ! (i - 1)))
                  (snd (coords ! i)) (fst (coords ! i))))
          [1 ..< length coords] (Num 0)"

text \<open>\<^verbatim>\<open>a?.textContent || b?.textContent || c?.textContent || undefined\<close>.\<close>

definition first_nonempty :: "string option list \<Rightarrow> string option" where
  "first_nonempty xs =
     (case filter (\<lambda>x. x \<noteq> None \<and> x \<noteq> Some []) xs of [] \<Rightarrow> None | x # _ \<Rightarrow> x)"

text \<open>The \<^verbatim>\<open>try\<close> block of \<open>parseGPX\<close>, and \<open>parseGPX\<close>, whose \<^verbatim>\<open>catch\<close> returns \<^verbatim>\<open>null\<close>.\<close>

definition parseGPX_try :: "xml_document \<Rightarrow> parse_error + number GPXData" where
  "parseGPX_try xmlDoc =
     (if parsererror xmlDoc then Inl InvalidXmlFormat
      else if length (trkpts xmlDoc) = 0 \<and> length (rtepts xmlDoc) = 0
      then Inl NoTrackOrRoutePoints
      else
        let points = (if length (trkpts xmlDoc) > 0 then trkpts xmlDoc else rtepts xmlDoc) in
        case fold point_step points ([], Infinity, NegInfinity, Infinity, NegInfinity) of
          (coords, minLat, maxLat, minLon, maxLon) \<Rightarrow>
            if length coords = 0 then Inl NoValidCoordinates
            else
              Inr \<lparr>name = first_nonempty [trk_name xmlDoc, rte_name xmlDoc, metadata_name xmlDoc],
                   coordinates = coords,
                   bounds = \<lparr>north = maxLat, south = minLat, east = maxLon, west = minLon\<rparr>,
                   totalDistance = total_distance coords\<rparr>)"

definition parseGPX :: "xml_document \<Rightarrow> number GPXData option" where
  "parseGPX xmlDoc = (case parseGPX_try xmlDoc of Inl err \<Rightarrow> None | Inr gpxData \<Rightarrow> Some gpxData)"

text \<open>
  The points the parser reads, the coordinate pair \<^verbatim>\<open>[lon, lat]\<close> a point stands for, and
  the points whose two attributes parse to a number other than NaN.
\<close>

definition selected_points :: "xml_document \<Rightarrow> point_element list" where
  "selected_points xmlDoc = (if trkpts xmlDoc \<noteq> [] then trkpts xmlDoc else rtepts xmlDoc)"

definition point_coordinate :: "point_element \<Rightarrow> number \<times> number" where
  "point_coordinate point =
     (parseFloat (attribute_or_zero (lon_attr point)),
      parseFloat (attribute_or_zero (lat_attr point)))"

definition is_number_pair :: "number \<times> number \<Rightarrow> bool" where
  "is_number_pair c = (fst c \<noteq> NaN \<and> snd c \<noteq> NaN)"

text \<open>The tightest box around a list of coordinates, each bound starting at its infinity.\<close>

definition bounds_of :: "(number \<times> number) list \<Rightarrow> number Bounds" where
  "bounds_of coords =
     \<lparr>north = fold (\<lambda>c m. Math_max m (snd c)) coords NegInfinity,
      south = fold (\<lambda>c m. Math_min m (snd c)) coords Infinity,
      east = fold (\<lambda>c m. Math_max m (fst c)) coords NegInfinity,
      west = fold (\<lambda>c m. Math_min m (fst c)) coords Infinity\<rparr>"

section \<open>Spatial cache\<close>

text \<open>
  \<^verbatim>\<open>x.toFixed(f)\<close>: the sign, then the integer \<open>n\<close> nearest to \<open>x * 10^f\<close> (the larger
  one of two), its digits padded with zeros to \<open>f + 1\<close> places and the point inserted. For
  \<open>x \<ge> 10^21\<close> the result is the platform's number-to-string conversion.
\<close>

definition fixed_digits :: "nat \<Rightarrow> nat \<Rightarrow> string" where
  "fixed_digits f n =
     (let m = nat_digits n in
      if f \<noteq> 0
      then
        let m = (if length m \<le> f then replicate (f + 1 - length m) (CHR ''0'') @ m else m);
            k = length m
        in take (k - f) m @ ''.'' @ drop (k - f) m
      else m)"

definition toFixed :: "(real \<Rightarrow> string) \<Rightarrow> nat \<Rightarrow> real \<Rightarrow> string" where
  "toFixed numToString f x0 =
     (let s = (if x0 < 0 then ''-'' else []);
          x = (if x0 < 0 then - x0 else x0)
      in if 10 ^ 21 \<le> x then s @ numToString x
         else
           let n = nat \<lfloor>x * 10 ^ f + 1 / 2\<rfloor>
           in s @ fixed_digits f n)"

definition CACHE_PREFIX :: string where
  "CACHE_PREFIX = ''geodrink_cache_''"

definition CACHE_DURATION :: int where
  "CACHE_DURATION = 60 * 60 * 1000"

definition generateCacheKey :: "(real \<Rightarrow> string) \<Rightarrow> real Bounds \<Rightarrow> real \<Rightarrow> string" where
  "generateCacheKey numToString bnds bufferDistance =
     (let boundsStr =
            toFixed numToString 4 (north bnds) @ ''_'' @ toFixed numToString 4 (south bnds) @
            ''_'' @ toFixed numToString 4 (east bnds) @ ''_'' @ toFixed numToString 4 (west bnds)
      in CACHE_PREFIX @ boundsStr @ ''_'' @ numToString bufferDistance)"

text \<open>
  The key that \<open>findWaterPoints\<close> derives from bounds, buffer distance and filter id:
  \<^verbatim>\<open>CacheManager.generateCacheKey(gpxData.bounds, bufferDistance) + `_${filterPreset}`\<close>.
\<close>

definition cache_key :: "(real \<Rightarrow> string) \<Rightarrow> real Bounds \<Rightarrow> real \<Rightarrow> string \<Rightarrow> string" where
  "cache_key numToString bnds bufferDistance filterPreset =
     generateCacheKey numToString bnds bufferDistance @ ''_'' @ filterPreset"

text \<open>
  The number-to-string conversion of an integer-valued number below \<open>10^21\<close> is its decimal
  digits. \<open>integer_toString\<close> is that conversion; it instantiates \<open>numToString\<close> in the
  examples, whose buffer distances are integers.
\<close>

definition integer_toString :: "real \<Rightarrow> string" where
  "integer_toString x = int_toString \<lfloor>x\<rfloor>"

text \<open>
  Two numbers that \<^verbatim>\<open>toFixed(4)\<close> renders alike: both below \<open>10^21\<close> in magnitude, of the
  same sign, and with the same nearest multiple of \<open>10^-4\<close>.
\<close>

definition same_fixed4 :: "real \<Rightarrow> real \<Rightarrow> bool" where
  "same_fixed4 x y =
     (\<bar>x\<bar> < 10 ^ 21 \<and> \<bar>y\<bar> < 10 ^ 21 \<and> (x < 0) = (y < 0) \<and>
      \<lfloor>\<bar>x\<bar> * 10 ^ 4 + 1 / 2\<rfloor> = \<lfloor>\<bar>y\<bar> * 10 ^ 4 + 1 / 2\<rfloor>)"

text \<open>
  \<^verbatim>\<open>localStorage\<close>: keys and items in the order \<^verbatim>\<open>Object.keys\<close> enumerates them.
  \<^verbatim>\<open>localStorage.setItem\<close> raises when the quota is exceeded or the storage is disabled:
  whether the platform accepts the write of an item under a key into a storage is a
  parameter \<open>accepts\<close> of the functions that write.
\<close>

type_synonym storage = "(string \<times> string) list"

definition getItem :: "storage \<Rightarrow> string \<Rightarrow> string option" where
  "getItem st k = map_of st k"

fun setItem :: "string \<Rightarrow> string \<Rightarrow> storage \<Rightarrow> storage" where
  "setItem k v [] = [(k, v)]"
| "setItem k v ((k', v') # st) = (if k' = k then (k, v) # st else (k', v') # setItem k v st)"

definition removeItem :: "string \<Rightarrow> storage \<Rightarrow> storage" where
  "removeItem k st = filter (\<lambda>kv. fst kv \<noteq> k) st"

text \<open>\<^verbatim>\<open>CacheEntry<T>\<close>; the timestamp is \<^verbatim>\<open>Date.now()\<close>, in milliseconds.\<close>

record 'a CacheEntry =
  entry_data :: 'a
  timestamp :: int
  entry_bounds :: string
  entry_bufferDistance :: real

text \<open>
  \<^verbatim>\<open>JSON.stringify\<close> and \<^verbatim>\<open>JSON.parse\<close> are the platform's: \<open>stringify_entry\<close>
  serialises a cache entry (\<open>None\<close> when it raises), \<open>parse_entry\<close> reads one back (\<open>None\<close>
  when the item is not the text of an entry), \<open>stringify_bounds\<close> serialises the bounds, an
  object of four numbers.
\<close>

record 'a JSON =
  stringify_entry :: "'a CacheEntry \<Rightarrow> string option"
  parse_entry :: "string \<Rightarrow> 'a CacheEntry option"
  stringify_bounds :: "real Bounds \<Rightarrow> string"

text \<open>
  \<^verbatim>\<open>CacheManager.set\<close>, at time \<open>now\<close>. When \<^verbatim>\<open>JSON.stringify\<close> or
  \<^verbatim>\<open>localStorage.setItem\<close> raises, the \<^verbatim>\<open>catch\<close> logs a warning and the storage is left as
  it was.
\<close>

definition cache_set ::
  "'a JSON \<Rightarrow> (storage \<Rightarrow> string \<Rightarrow> string \<Rightarrow> bool) \<Rightarrow> int \<Rightarrow> string \<Rightarrow> 'a \<Rightarrow>
   real Bounds \<Rightarrow> real \<Rightarrow> storage \<Rightarrow> storage" where
  "cache_set json accepts now key dat bnds bufferDistance st =
     (let entry = \<lparr>entry_data = dat, timestamp = now,
                    entry_bounds = stringify_bounds json bnds,
                    entry_bufferDistance = bufferDistance\<rparr>
      in case stringify_entry json entry of
           None \<Rightarrow> st
         | Some item \<Rightarrow> if accepts st key item then setItem key item st else st)"

text \<open>
  \<^verbatim>\<open>CacheManager.get\<close>, at time \<open>now\<close>: the value (\<open>None\<close> is \<^verbatim>\<open>null\<close>) and the
  storage afterwards. An empty item is falsy; an item that does not parse raises inside
  the \<^verbatim>\<open>try\<close> and the \<^verbatim>\<open>catch\<close> returns \<^verbatim>\<open>null\<close>.
\<close>

definition cache_get :: "'a JSON \<Rightarrow> int \<Rightarrow> string \<Rightarrow> storage \<Rightarrow> 'a option \<times> storage" where
  "cache_get json now key st =
     (case getItem st key of
        None \<Rightarrow> (None, st)
      | Some item \<Rightarrow>
          if item = [] then (None, st)
          else
            (case parse_entry json item of
               None \<Rightarrow> (None, st)
             | Some entry \<Rightarrow>
                 if now - timestamp entry > CACHE_DURATION then (None, removeItem key st)
                 else (Some (entry_data entry), st)))"

text \<open>\<^verbatim>\<open>CacheManager.clear\<close>.\<close>

definition cache_clear :: "storage \<Rightarrow> storage" where
  "cache_clear st = filter (\<lambda>kv. \<not> prefix CACHE_PREFIX (fst kv)) st"


section \<open>Query orchestrator\<close>

text \<open>
  An element of the remote response: \<^verbatim>\<open>type\<close>, \<^verbatim>\<open>id\<close>, and the optional \<^verbatim>\<open>lat\<close>,
  \<^verbatim>\<open>lon\<close>, \<^verbatim>\<open>tags\<close>.
\<close>

record element =
  el_type :: string
  el_id :: int
  el_lat :: "real option"
  el_lon :: "real option"
  el_tags :: "(string \<rightharpoonup> string) option"

text \<open>
  What \<^verbatim>\<open>await response.json()\<close> gives: a rejection when the body is not JSON, the value
  \<^verbatim>\<open>null\<close>, or a value with an optional \<^verbatim>\<open>elements\<close> array. What \<^verbatim>\<open>await fetch(...)\<close>
  gives: a rejection (transport error) or a response with \<^verbatim>\<open>ok\<close>, \<^verbatim>\<open>status\<close> and body.
\<close>

datatype json_body = BodyNotJson | BodyNull | BodyData "element list option"

datatype fetch_outcome = NetworkError | Response bool nat json_body

text \<open>The exceptions raised inside the \<^verbatim>\<open>try\<close> block of \<open>findWaterPoints\<close>.\<close>

datatype error = FetchRejected | OverpassApiError nat | JsonRejected | TypeError

text \<open>
  The test \<^verbatim>\<open>element.type === 'node' && element.lat && element.lon\<close>: a number is truthy
  when it is not zero.
\<close>

definition is_located_node :: "element \<Rightarrow> bool" where
  "is_located_node e =
     (el_type e = ''node'' \<and>
      (case el_lat e of None \<Rightarrow> False | Some la \<Rightarrow> la \<noteq> 0) \<and>
      (case el_lon e of None \<Rightarrow> False | Some lo \<Rightarrow> lo \<noteq> 0))"

text \<open>The element as \<open>processWaterPoint\<close> destructures it.\<close>

definition as_node :: "element \<Rightarrow> node option" where
  "as_node e =
     (case (el_lat e, el_lon e) of
        (Some la, Some lo) \<Rightarrow>
          Some \<lparr>node_lat = la, node_lon = lo, node_tags = el_tags e, node_id = el_id e\<rparr>
      | _ \<Rightarrow> None)"

text \<open>One round of the loop over \<^verbatim>\<open>data.elements\<close>, and the loop.\<close>

definition element_step ::
  "real GPXData \<Rightarrow> real \<Rightarrow> WaterFilterPreset \<Rightarrow> element \<Rightarrow> WaterPoint list \<Rightarrow> WaterPoint list"
  where
  "element_step gpxData bufferDistance preset e waterPoints =
     (if is_located_node e
      then (case as_node e of
              None \<Rightarrow> waterPoints
            | Some nd \<Rightarrow>
                (case processWaterPoint nd gpxData bufferDistance preset of
                   Some waterPoint \<Rightarrow> waterPoints @ [waterPoint]
                 | None \<Rightarrow> waterPoints))
      else waterPoints)"

definition process_elements ::
  "real GPXData \<Rightarrow> real \<Rightarrow> WaterFilterPreset \<Rightarrow> element list \<Rightarrow> WaterPoint list" where
  "process_elements gpxData bufferDistance preset els =
     fold (element_step gpxData bufferDistance preset) els []"

text \<open>
  The \<^verbatim>\<open>try\<close> block of \<open>findWaterPoints\<close>: the list it returns or the exception it
  raises, and the storage afterwards. \<open>fetch\<close> maps the request body to the outcome of the
  exchange; \<open>t_get\<close> and \<open>t_set\<close> are the times of the cache read and of the cache write;
  \<open>accepts\<close> tells whether the platform accepts a write.
  \<^verbatim>\<open>Array.prototype.sort\<close> is stable, as \<open>sort_key\<close> is.
\<close>

definition findWaterPoints_try ::
  "(real \<Rightarrow> string) \<Rightarrow> WaterPoint list JSON \<Rightarrow> (storage \<Rightarrow> string \<Rightarrow> string \<Rightarrow> bool) \<Rightarrow>
   (string \<Rightarrow> fetch_outcome) \<Rightarrow> int \<Rightarrow> int \<Rightarrow>
   storage \<Rightarrow> real GPXData \<Rightarrow> real \<Rightarrow> string \<Rightarrow> (error + WaterPoint list) \<times> storage" where
  "findWaterPoints_try numToString json accepts fetch t_get t_set st gpxData bufferDistance
     filterPreset =
     (let cacheKey = cache_key numToString (bounds gpxData) bufferDistance filterPreset in
      case cache_get json t_get cacheKey st of
        (Some cachedData, st1) \<Rightarrow> (Inr cachedData, st1)
      | (None, st1) \<Rightarrow>
          let preset = select_preset filterPreset;
              query = buildOverpassQuery numToString gpxData bufferDistance preset
          in case fetch query of
               NetworkError \<Rightarrow> (Inl FetchRejected, st1)
             | Response ok status body \<Rightarrow>
                 if \<not> ok then (Inl (OverpassApiError status), st1)
                 else
                   (case body of
                      BodyNotJson \<Rightarrow> (Inl JsonRejected, st1)
                    | BodyNull \<Rightarrow> (Inl TypeError, st1)
                    | BodyData elements \<Rightarrow>
                        let waterPoints =
                              (case elements of
                                 None \<Rightarrow> []
                               | Some els \<Rightarrow> process_elements gpxData bufferDistance preset els);
                            sortedWaterPoints = sort_key distanceFromStart waterPoints
                        in (Inr sortedWaterPoints,
                            cache_set json accepts t_set cacheKey sortedWaterPoints (bounds gpxData)
                              bufferDistance st1)))"

text \<open>\<open>findWaterPoints\<close>: the \<^verbatim>\<open>catch\<close> turns every exception into the empty list.\<close>

definition findWaterPoints ::
  "(real \<Rightarrow> string) \<Rightarrow> WaterPoint list JSON \<Rightarrow> (storage \<Rightarrow> string \<Rightarrow> string \<Rightarrow> bool) \<Rightarrow>
   (string \<Rightarrow> fetch_outcome) \<Rightarrow> int \<Rightarrow> int \<Rightarrow>
   storage \<Rightarrow> real GPXData \<Rightarrow> real \<Rightarrow> string \<Rightarrow> WaterPoint list \<times> storage" where
  "findWaterPoints numToString json accepts fetch t_get t_set st gpxData bufferDistance
     filterPreset =
     (case findWaterPoints_try numToString json accepts fetch t_get t_set st gpxData
             bufferDistance filterPreset of
        (Inr waterPoints, st') \<Rightarrow> (waterPoints, st')
      | (Inl err, st') \<Rightarrow> ([], st'))"

section \<open>Examples\<close>

text \<open>
  The route \<^verbatim>\<open>[(2.0, 48.0), (2.1, 48.0)]\<close> (lon, lat) and the raw record at latitude
  48.00005, longitude 2.05 tagged \<^verbatim>\<open>amenity=drinking_water, drinking_water=yes\<close>.
\<close>

definition example_route :: "real GPXData" where
  "example_route =
     \<lparr>name = None, coordinates = [(2.0, 48.0), (2.1, 48.0)],
      bounds = \<lparr>north = 48.0, south = 48.0, east = 2.1, west = 2.0\<rparr>,
      totalDistance = calculateDistance 48.0 2.0 48.0 2.1\<rparr>"

definition example_node :: node where
  "example_node =
     \<lparr>node_lat = 48.00005, node_lon = 2.05,
      node_tags = Some [''amenity'' \<mapsto> ''drinking_water'', ''drinking_water'' \<mapsto> ''yes''],
      node_id = 1\<rparr>"


definition example_points_json :: "WaterPoint list JSON" where
  "example_points_json =
     \<lparr>stringify_entry = (\<lambda>e. Some ''entry''), parse_entry = (\<lambda>s. None),
      stringify_bounds = (\<lambda>b. ''bounds'')\<rparr>"

definition without_quota :: "storage \<Rightarrow> string \<Rightarrow> string \<Rightarrow> bool" where
  "without_quota st key item = True"


text \<open>A node element at latitude 0, and a response that carries only it.\<close>

definition example_zero_element :: element where
  "example_zero_element =
     \<lparr>el_type = ''node'', el_id = 7, el_lat = Some 0, el_lon = Some 2.05,
      el_tags = Some [''amenity'' \<mapsto> ''drinking_water'']\<rparr>"

definition example_zero_fetch :: "string \<Rightarrow> fetch_outcome" where
  "example_zero_fetch query = Response True 200 (BodyData (Some [example_zero_element]))"

text \<open>
  A track with three valid points and one point whose latitude is not numeric, and a track
  whose only point has the latitude \<^verbatim>\<open>Infinity\<close>.
\<close>

definition example_document :: xml_document where
  "example_document =
     \<lparr>parsererror = False,
      trkpts = [\<lparr>lat_attr = Some ''48.0'', lon_attr = Some ''2.0''\<rparr>,
                \<lparr>lat_attr = Some ''48.1'', lon_attr = Some ''2.1''\<rparr>,
                \<lparr>lat_attr = Some ''abc'', lon_attr = Some ''2.2''\<rparr>,
                \<lparr>lat_attr = Some ''48.2'', lon_attr = Some ''2.3''\<rparr>],
      rtepts = [], trk_name = None, rte_name = None, metadata_name = None\<rparr>"

definition infinite_document :: xml_document where
  "infinite_document =
     \<lparr>parsererror = False,
      trkpts = [\<lparr>lat_attr = Some ''Infinity'', lon_attr = Some ''2.0''\<rparr>],
      rtepts = [], trk_name = None, rte_name = None, metadata_name = None\<rparr>"

section \<open>Properties of the geometry kernel\<close>

lemma double_round_not_NaN: "double_round x \<noteq> NaN"
  by (simp add: double_round_def Let_def)





lemma double_round_cases:
  obtains r where "double_round x = Num r" | "double_round x = Infinity"
  | "double_round x = NegInfinity"
  by (cases "double_round x") (auto simp: double_round_not_NaN)



lemma dbl_div_numbers: "d \<noteq> 0 \<Longrightarrow> dbl_div (Num n) (Num d) \<noteq> NaN"
  by (simp add: double_round_not_NaN)










section \<open>Properties of the filter\<close>

lemma processWaterPoint_None_iff:
  "processWaterPoint element gpxData bufferDistance preset = None \<longleftrightarrow>
     num_greater (calculateMinDistanceFromRoute (node_lat element) (node_lon element) gpxData)
       (Num bufferDistance) \<or>
     exclude_rule (filters preset) (case node_tags element of None \<Rightarrow> Map.empty | Some t \<Rightarrow> t) \<or>
     access_rule (filters preset) (case node_tags element of None \<Rightarrow> Map.empty | Some t \<Rightarrow> t) \<or>
     drinking_water_rule (filters preset)
       (case node_tags element of None \<Rightarrow> Map.empty | Some t \<Rightarrow> t)"
  by (simp add: processWaterPoint_def Let_def)

text \<open>
  C6: \<open>processWaterPoint\<close> rejects a record exactly when one of its four rules fires. The
  access rule fires only if the preset has an access allow-list and the record carries an
  access tag whose value is outside it; a record without access tag is not rejected by this
  rule. The potability rule fires only if the preset has a potability allow-list and the
  record carries a \<^verbatim>\<open>drinking_water\<close> tag whose value is outside it; an absent tag passes.
\<close>

theorem allow_list_rules:
  "(processWaterPoint element gpxData bufferDistance preset = None \<longleftrightarrow>
      num_greater (calculateMinDistanceFromRoute (node_lat element) (node_lon element) gpxData)
        (Num bufferDistance) \<or>
      exclude_rule (filters preset) (case node_tags element of None \<Rightarrow> Map.empty | Some t \<Rightarrow> t) \<or>
      access_rule (filters preset) (case node_tags element of None \<Rightarrow> Map.empty | Some t \<Rightarrow> t) \<or>
      drinking_water_rule (filters preset)
        (case node_tags element of None \<Rightarrow> Map.empty | Some t \<Rightarrow> t)) \<and>
   (access_rule fs tgs \<longrightarrow>
      (\<exists>allowed v. access fs = Some allowed \<and> tgs ''access'' = Some v \<and> v \<notin> set allowed)) \<and>
   (tgs ''access'' = None \<longrightarrow> \<not> access_rule fs tgs) \<and>
   (drinking_water_rule fs tgs \<longrightarrow>
      (\<exists>allowed v. drinking_water fs = Some allowed \<and> tgs ''drinking_water'' = Some v \<and>
                   v \<notin> set allowed)) \<and>
   (tgs ''drinking_water'' = None \<longrightarrow> \<not> drinking_water_rule fs tgs)"
proof (intro conjI)
  show "access_rule fs tgs \<longrightarrow>
      (\<exists>allowed v. access fs = Some allowed \<and> tgs ''access'' = Some v \<and> v \<notin> set allowed)"
    by (auto simp: access_rule_def split: option.splits)
  show "tgs ''access'' = None \<longrightarrow> \<not> access_rule fs tgs"
    by (simp add: access_rule_def split: option.splits)
  show "drinking_water_rule fs tgs \<longrightarrow>
      (\<exists>allowed v. drinking_water fs = Some allowed \<and> tgs ''drinking_water'' = Some v \<and>
                   v \<notin> set allowed)"
    by (auto simp: drinking_water_rule_def split: option.splits)
  show "tgs ''drinking_water'' = None \<longrightarrow> \<not> drinking_water_rule fs tgs"
    by (simp add: drinking_water_rule_def split: option.splits)
qed (rule processWaterPoint_None_iff)

theorem allow_list_rules_witness:
  "access_rule (filters (select_preset ''emergency-sources'')) [''access'' \<mapsto> ''private''] \<and>
   (\<exists>allowed v. access (filters (select_preset ''emergency-sources'')) = Some allowed \<and>
       [''access'' \<mapsto> ''private''] ''access'' = Some v \<and> v \<notin> set allowed) \<and>
   (Map.empty :: string \<rightharpoonup> string) ''access'' = None \<and>
   \<not> access_rule (filters (select_preset ''emergency-sources'')) Map.empty \<and>
   drinking_water_rule (filters (select_preset ''potable-only'')) [''drinking_water'' \<mapsto> ''no''] \<and>
   (\<exists>allowed v. drinking_water (filters (select_preset ''potable-only'')) = Some allowed \<and>
       [''drinking_water'' \<mapsto> ''no''] ''drinking_water'' = Some v \<and> v \<notin> set allowed) \<and>
   (Map.empty :: string \<rightharpoonup> string) ''drinking_water'' = None \<and>
   \<not> drinking_water_rule (filters (select_preset ''potable-only'')) Map.empty"
proof -
  have a: "access_rule (filters (select_preset ''emergency-sources'')) [''access'' \<mapsto> ''private'']"
    by (simp add: access_rule_def select_preset_def WATER_FILTER_PRESETS_def no_filters_def)
  have d: "drinking_water_rule (filters (select_preset ''potable-only''))
             [''drinking_water'' \<mapsto> ''no'']"
    by (simp add: drinking_water_rule_def select_preset_def WATER_FILTER_PRESETS_def
        no_filters_def)
  show ?thesis
    using a d
      allow_list_rules [of example_node example_route 100 "select_preset ''potable-only''"
        "filters (select_preset ''emergency-sources'')" "[''access'' \<mapsto> ''private'']"]
      allow_list_rules [of example_node example_route 100 "select_preset ''potable-only''"
        "filters (select_preset ''emergency-sources'')" Map.empty]
      allow_list_rules [of example_node example_route 100 "select_preset ''potable-only''"
        "filters (select_preset ''potable-only'')" "[''drinking_water'' \<mapsto> ''no'']"]
      allow_list_rules [of example_node example_route 100 "select_preset ''potable-only''"
        "filters (select_preset ''potable-only'')" Map.empty]
    by simp
qed

text \<open>
  C9: the presets \<^verbatim>\<open>potable-only\<close> and \<^verbatim>\<open>free-potable\<close> are two entries of the catalogue
  with the same rule set; every record has the same outcome under both, and both build the
  same remote query.
\<close>

theorem potable_only_free_potable_same:
  "preset_id (select_preset ''potable-only'') = ''potable-only'' \<and>
   preset_id (select_preset ''free-potable'') = ''free-potable'' \<and>
   filters (select_preset ''potable-only'') = filters (select_preset ''free-potable'') \<and>
   processWaterPoint element gpxData bufferDistance (select_preset ''potable-only'') =
   processWaterPoint element gpxData bufferDistance (select_preset ''free-potable'') \<and>
   buildOverpassQuery numToString gpxData bufferDistance (select_preset ''potable-only'') =
   buildOverpassQuery numToString gpxData bufferDistance (select_preset ''free-potable'')"
proof -
  have i: "preset_id (select_preset ''potable-only'') = ''potable-only''"
    "preset_id (select_preset ''free-potable'') = ''free-potable''"
    by (simp_all add: select_preset_def WATER_FILTER_PRESETS_def)
  have f: "filters (select_preset ''potable-only'') = filters (select_preset ''free-potable'')"
    by (simp add: select_preset_def WATER_FILTER_PRESETS_def)
  have p: "processWaterPoint element gpxData bufferDistance (select_preset ''potable-only'') =
      processWaterPoint element gpxData bufferDistance (select_preset ''free-potable'')"
    unfolding processWaterPoint_def f by (rule refl)
  have q: "buildOverpassQuery numToString gpxData bufferDistance (select_preset ''potable-only'') =
      buildOverpassQuery numToString gpxData bufferDistance (select_preset ''free-potable'')"
    unfolding buildOverpassQuery_def f by (rule refl)
  from i f p q show ?thesis by (intro conjI)
qed

section \<open>Bounds on the haversine distance\<close>

lemma abs_sin_mult_le: "\<bar>sin (real n * x)\<bar> \<le> real n * \<bar>sin (x::real)\<bar>"
proof (induction n)
  case 0
  show ?case by simp
next
  case (Suc n)
  have "sin (real (Suc n) * x) = sin (real n * x) * cos x + cos (real n * x) * sin x"
    by (simp add: distrib_right sin_add)
  then have "\<bar>sin (real (Suc n) * x)\<bar> \<le> \<bar>sin (real n * x) * cos x\<bar> + \<bar>cos (real n * x) * sin x\<bar>"
    by simp
  also have "\<bar>sin (real n * x) * cos x\<bar> \<le> \<bar>sin (real n * x)\<bar>"
    using abs_cos_le_one [of x] by (simp add: abs_mult mult_left_le)
  also have "\<bar>cos (real n * x) * sin x\<bar> \<le> \<bar>sin x\<bar>"
    using abs_cos_le_one [of "real n * x"] by (simp add: abs_mult mult_left_le_one_le)
  finally show ?case
    using Suc.IH by (simp add: distrib_right)
qed

lemma tan_small: 
  fixes w :: real
  assumes "0 \<le> w" "w \<le> 1 / 2"
  shows "tan w \<le> 2 * w"
proof -
  have "w \<le> pi / 3" using assms pi_ge_two by simp
  then have "cos (pi / 3) \<le> cos w"
    using assms by (intro cos_monotone_0_pi_le) auto
  then have c: "1 / 2 \<le> cos w" by (simp add: cos_60)
  have s: "sin w \<le> w" using assms by (simp add: sin_x_le_x)
  have "tan w = sin w / cos w" by (simp add: tan_def)
  also have "\<dots> \<le> w / cos w" using s c by (simp add: divide_right_mono)
  also have "\<dots> \<le> w / (1 / 2)" using c assms by (intro divide_left_mono) auto
  finally show ?thesis by simp
qed

lemma arctan_lower:
  fixes w :: real
  assumes "0 \<le> w" "w \<le> 1 / 2" "2 * w \<le> q"
  shows "w \<le> arctan q"
proof -
  have "w < pi / 2" using assms pi_ge_two by simp
  then have "arctan (tan w) = w" using assms by (simp add: arctan_tan)
  moreover have "tan w \<le> q" using tan_small [OF assms(1,2)] assms(3) by simp
  ultimately show ?thesis using arctan_monotone' by metis
qed

lemma cos_deg_bounds:
  fixes d :: real
  assumes "0 \<le> d" "d \<le> 60"
  shows "1 / 2 \<le> cos (d * pi / 180)" "cos (d * pi / 180) \<le> 1"
proof -
  have "cos (pi / 3) \<le> cos (d * pi / 180)"
    using assms by (intro cos_monotone_0_pi_le) auto
  then show "1 / 2 \<le> cos (d * pi / 180)" by (simp add: cos_60)
  show "cos (d * pi / 180) \<le> 1" by simp
qed

lemma sin_sq_le: "sin x * sin x \<le> x * (x::real)"
proof -
  have "\<bar>sin x\<bar> \<le> \<bar>x\<bar>" by (rule abs_sin_x_le_abs_x)
  then have "\<bar>sin x\<bar> * \<bar>sin x\<bar> \<le> \<bar>x\<bar> * \<bar>x\<bar>" by (intro mult_mono) auto
  then show ?thesis by (simp add: abs_mult_self_eq)
qed

lemma haversine_lower:
  fixes lat1 lon1 lat2 lon2 :: real
  assumes l1: "0 \<le> lat1" "lat1 \<le> 60" and l2: "0 \<le> lat2" "lat2 \<le> 60"
    and dlat: "\<bar>lat2 - lat1\<bar> \<le> 1" and dlon: "\<bar>lon2 - lon1\<bar> = 1 / 20"
  shows "100 < calculateDistance lat1 lon1 lat2 lon2"
proof -
  define dLat where "dLat = (lat2 - lat1) * pi / 180"
  define dLon where "dLon = (lon2 - lon1) * pi / 180"
  define k where "k = cos (lat1 * pi / 180) * cos (lat2 * pi / 180)"
  define s where "s = sin (dLon / 2) * sin (dLon / 2)"
  define a where "a = sin (dLat / 2) * sin (dLat / 2) + k * s"
  have cd: "calculateDistance lat1 lon1 lat2 lon2 =
              6371000 * (2 * Math_atan2 (sqrt a) (sqrt (1 - a)))"
    by (simp add: calculateDistance_def Let_def a_def k_def s_def dLat_def dLon_def mult.assoc)
  have k_lo: "1 / 4 \<le> k"
  proof -
    have "(1 / 2) * (1 / 2) \<le> cos (lat1 * pi / 180) * cos (lat2 * pi / 180)"
      using cos_deg_bounds(1) [OF l1] cos_deg_bounds(1) [OF l2] by (intro mult_mono) auto
    then show ?thesis by (simp add: k_def)
  qed
  have k_hi: "k \<le> 1"
  proof -
    have "cos (lat1 * pi / 180) * cos (lat2 * pi / 180) \<le> 1 * 1"
      using cos_deg_bounds [OF l1] cos_deg_bounds [OF l2] by (intro mult_mono) auto
    then show ?thesis by (simp add: k_def)
  qed
  have half: "\<bar>dLon / 2\<bar> = pi / 7200"
    using dlon by (simp add: dLon_def abs_mult)
  have "\<bar>sin (real 1200 * (dLon / 2))\<bar> \<le> real 1200 * \<bar>sin (dLon / 2)\<bar>"
    by (rule abs_sin_mult_le)
  moreover have "\<bar>sin (real 1200 * (dLon / 2))\<bar> = 1 / 2"
  proof -
    from dlon consider "lon2 - lon1 = 1 / 20" | "lon2 - lon1 = - (1 / 20)"
      by (auto simp: abs_if split: if_splits)
    then show ?thesis
    proof cases
      case 1
      then have e: "real 1200 * (dLon / 2) = pi / 6" by (simp add: dLon_def)
      have v: "sin (real 1200 * (dLon / 2)) = 1 / 2" unfolding e by (rule sin_30)
      show ?thesis unfolding v by simp
    next
      case 2
      then have e: "real 1200 * (dLon / 2) = - (pi / 6)" by (simp add: dLon_def)
      have v: "sin (real 1200 * (dLon / 2)) = - (1 / 2)" unfolding e sin_minus sin_30 by (rule refl)
      show ?thesis unfolding v by simp
    qed
  qed
  ultimately have s_abs: "1 / 2400 \<le> \<bar>sin (dLon / 2)\<bar>" by simp
  have s_lo: "(1 / 2400) * (1 / 2400) \<le> s"
  proof -
    have "(1 / 2400) * (1 / 2400) \<le> \<bar>sin (dLon / 2)\<bar> * \<bar>sin (dLon / 2)\<bar>"
      using s_abs by (intro mult_mono) auto
    then show ?thesis by (simp add: s_def abs_mult_self_eq)
  qed
  have s_hi: "s \<le> 1 / 1000"
  proof -
    have "s \<le> (dLon / 2) * (dLon / 2)" unfolding s_def by (rule sin_sq_le)
    also have "\<dots> = \<bar>dLon / 2\<bar> * \<bar>dLon / 2\<bar>" by (simp add: abs_mult_self_eq)
    also have "\<dots> = (pi / 7200) * (pi / 7200)" by (simp only: half)
    also have "\<dots> \<le> (4 / 7200) * (4 / 7200)"
      using pi_less_4 by (intro mult_mono) auto
    finally show ?thesis by simp
  qed
  have t_hi: "sin (dLat / 2) * sin (dLat / 2) \<le> 1 / 1000"
  proof -
    have b: "\<bar>dLat / 2\<bar> \<le> 4 / 360"
    proof -
      have "\<bar>dLat / 2\<bar> = \<bar>lat2 - lat1\<bar> * pi / 360" by (simp add: dLat_def abs_mult)
      also have "\<dots> \<le> 1 * 4 / 360" using dlat pi_less_4
        by (intro divide_right_mono mult_mono) auto
      finally show ?thesis by simp
    qed
    have "sin (dLat / 2) * sin (dLat / 2) \<le> (dLat / 2) * (dLat / 2)" by (rule sin_sq_le)
    also have "\<dots> = \<bar>dLat / 2\<bar> * \<bar>dLat / 2\<bar>" by (simp add: abs_mult_self_eq)
    also have "\<dots> \<le> (4 / 360) * (4 / 360)" using b by (intro mult_mono) auto
    finally show ?thesis by simp
  qed
  have s_nonneg: "0 \<le> s" by (simp add: s_def)
  have a_lo: "1 / 4 * ((1 / 2400) * (1 / 2400)) \<le> a"
  proof -
    have "1 / 4 * ((1 / 2400) * (1 / 2400)) \<le> k * s"
      using k_lo s_lo by (intro mult_mono) auto
    moreover have "0 \<le> sin (dLat / 2) * sin (dLat / 2)" by simp
    ultimately show ?thesis unfolding a_def by linarith
  qed
  have a_hi: "a \<le> 1 / 2"
  proof -
    have "k * s \<le> 1 * s" using k_hi s_nonneg by (intro mult_right_mono) auto
    then show ?thesis unfolding a_def using t_hi s_hi by linarith
  qed
  have a_nonneg: "0 \<le> a" using a_lo by simp
  have sq_lo: "1 / 4800 \<le> sqrt a"
  proof (rule real_le_rsqrt)
    show "(1 / 4800)\<^sup>2 \<le> a" using a_lo by (simp add: power2_eq_square)
  qed
  have d_pos: "0 < sqrt (1 - a)" using a_hi by simp
  have d_le: "sqrt (1 - a) \<le> 1" using a_nonneg by simp
  have q: "1 / 4800 \<le> sqrt a / sqrt (1 - a)"
  proof -
    have "sqrt a \<le> sqrt a / sqrt (1 - a)"
      using d_pos d_le a_nonneg by (simp add: le_divide_eq mult_left_le)
    then show ?thesis using sq_lo by linarith
  qed
  have at: "Math_atan2 (sqrt a) (sqrt (1 - a)) = arctan (sqrt a / sqrt (1 - a))"
    using d_pos by (simp add: Math_atan2_def)
  have "1 / 100000 \<le> arctan (sqrt a / sqrt (1 - a))"
    using q by (intro arctan_lower) auto
  then show ?thesis unfolding cd at by simp
qed

section \<open>The example scenario under the vertex-based admission check\<close>

lemma nat_digits_lt10: "n < 10 \<Longrightarrow> nat_digits n = [digit_char n]"
  by (subst nat_digits.simps) simp

lemma nat_digits_ge10:
  "10 \<le> n \<Longrightarrow> nat_digits n = nat_digits (n div 10) @ [digit_char (n mod 10)]"
  by (subst nat_digits.simps) simp

lemma example_min_distance:
  "calculateMinDistanceFromRoute 48.00005 2.05 example_route =
     Num (min (calculateDistance 48 2 48.00005 2.05) (calculateDistance 48 2.1 48.00005 2.05))"
  by (simp add: calculateMinDistanceFromRoute_def example_route_def Math_min_def isNaN_def min_def)

lemma example_rules:
  "\<not> exclude_rule (filters (select_preset ''potable-only''))
        [''amenity'' \<mapsto> ''drinking_water'', ''drinking_water'' \<mapsto> ''yes'']"
  "\<not> access_rule (filters (select_preset ''potable-only''))
        [''amenity'' \<mapsto> ''drinking_water'', ''drinking_water'' \<mapsto> ''yes'']"
  "\<not> drinking_water_rule (filters (select_preset ''potable-only''))
        [''amenity'' \<mapsto> ''drinking_water'', ''drinking_water'' \<mapsto> ''yes'']"
  by (simp_all add: select_preset_def WATER_FILTER_PRESETS_def no_filters_def exclude_rule_def
      exclude_tag_matches_def access_rule_def drinking_water_rule_def)

lemma example_far_from_vertices:
  "100 < calculateDistance 48 2 48.00005 2.05" "100 < calculateDistance 48 2.1 48.00005 2.05"
  by (rule haversine_lower; simp)+

text \<open>
  C1 (as amended): in the example scenario the record passes every tag rule of
  \<^verbatim>\<open>potable-only\<close> and is classified \<open>Fountain\<close>, but its distance from the route is the
  great-circle distance to the nearest route vertex, which is more than 100 m. For every
  buffer distance \<open>b\<close> the record is rejected when \<open>b\<close> is below that distance and accepted,
  with that distance attached, otherwise.
\<close>

theorem example_scenario_vertex_distance:
  "100 < min (calculateDistance 48 2 48.00005 2.05) (calculateDistance 48 2.1 48.00005 2.05) \<and>
   processWaterPoint example_node example_route b (select_preset ''potable-only'') =
     (if b < min (calculateDistance 48 2 48.00005 2.05) (calculateDistance 48 2.1 48.00005 2.05)
      then None
      else Some \<lparr>wp_id = ''1'', wp_lat = 48.00005, wp_lon = 2.05,
                  wp_tags = [''amenity'' \<mapsto> ''drinking_water'', ''drinking_water'' \<mapsto> ''yes''],
                  distanceFromStart = calculateDistance 48 2 48.00005 2.05,
                  distanceFromRoute =
                    Num (min (calculateDistance 48 2 48.00005 2.05)
                             (calculateDistance 48 2.1 48.00005 2.05)),
                  wp_type = Fountain\<rparr>)"
proof
  show "100 < min (calculateDistance 48 2 48.00005 2.05) (calculateDistance 48 2.1 48.00005 2.05)"
    using example_far_from_vertices by simp
  have tg: "node_tags example_node =
      Some [''amenity'' \<mapsto> ''drinking_water'', ''drinking_water'' \<mapsto> ''yes'']"
    and la: "node_lat example_node = 48.00005" and lo: "node_lon example_node = 2.05"
    and i: "node_id example_node = 1"
    by (simp_all add: example_node_def)
  have st: "calculateDistanceFromStart 48.00005 2.05 example_route =
      calculateDistance 48 2 48.00005 2.05"
    by (simp add: calculateDistanceFromStart_def example_route_def)
  have cl: "classify [''amenity'' \<mapsto> ''drinking_water'', ''drinking_water'' \<mapsto> ''yes''] = Fountain"
    by (simp add: classify_def)
  have idn: "int_toString 1 = ''1''"
    by (simp add: int_toString_def nat_digits_lt10 digit_char_def)
  show "processWaterPoint example_node example_route b (select_preset ''potable-only'') =
     (if b < min (calculateDistance 48 2 48.00005 2.05) (calculateDistance 48 2.1 48.00005 2.05)
      then None
      else Some \<lparr>wp_id = ''1'', wp_lat = 48.00005, wp_lon = 2.05,
                  wp_tags = [''amenity'' \<mapsto> ''drinking_water'', ''drinking_water'' \<mapsto> ''yes''],
                  distanceFromStart = calculateDistance 48 2 48.00005 2.05,
                  distanceFromRoute =
                    Num (min (calculateDistance 48 2 48.00005 2.05)
                             (calculateDistance 48 2.1 48.00005 2.05)),
                  wp_type = Fountain\<rparr>)"
    unfolding processWaterPoint_def tg la lo i option.case Let_def example_min_distance st cl idn
    using example_rules by (simp add: num_greater_def)
qed

text \<open>
  C1 as stated fails: with buffer 100 m the record of the example scenario is rejected.
\<close>

theorem example_scenario_rejected:
  "processWaterPoint example_node example_route 100 (select_preset ''potable-only'') = None"
proof -
  have "num_greater (calculateMinDistanceFromRoute (node_lat example_node) (node_lon example_node)
          example_route) (Num 100)"
    using example_far_from_vertices example_min_distance
    by (simp add: num_greater_def example_node_def)
  then show ?thesis
    by (simp add: processWaterPoint_def Let_def)
qed

theorem example_scenario_vertex_distance_witness:
  "processWaterPoint example_node example_route 100 (select_preset ''potable-only'') = None \<and>
   100 < min (calculateDistance 48 2 48.00005 2.05) (calculateDistance 48 2.1 48.00005 2.05)"
  using example_scenario_vertex_distance [of 100] by simp

section \<open>Properties of the cache key\<close>

lemma toFixed_small:
  "\<bar>x\<bar> < 10 ^ 21 \<Longrightarrow>
   toFixed ts f x = (if x < 0 then ''-'' else []) @ fixed_digits f (nat \<lfloor>\<bar>x\<bar> * 10 ^ f + 1 / 2\<rfloor>)"
  by (cases "x < 0") (simp_all add: toFixed_def Let_def)

lemma toFixed_same: "same_fixed4 x y \<Longrightarrow> toFixed ts 4 x = toFixed ts 4 y"
proof -
  assume h: "same_fixed4 x y"
  then have "\<bar>x\<bar> < 10 ^ 21" and "\<bar>y\<bar> < 10 ^ 21" and "(x < 0) = (y < 0)"
    and "\<lfloor>\<bar>x\<bar> * 10 ^ 4 + 1 / 2\<rfloor> = \<lfloor>\<bar>y\<bar> * 10 ^ 4 + 1 / 2\<rfloor>"
    by (simp_all add: same_fixed4_def)
  then show ?thesis
    by (simp only: toFixed_small)
qed

text \<open>
  C3 (as amended): two bounding boxes whose corresponding fields are rendered alike by
  \<^verbatim>\<open>toFixed(4)\<close> (same sign, same nearest multiple of \<open>10^-4\<close>, ties upwards in magnitude),
  with the same buffer distance and filter id, have the same cache key.
\<close>

theorem cache_key_collision:
  assumes "same_fixed4 (north b1) (north b2)" and "same_fixed4 (south b1) (south b2)"
    and "same_fixed4 (east b1) (east b2)" and "same_fixed4 (west b1) (west b2)"
  shows "cache_key numToString b1 bufferDistance filterId =
         cache_key numToString b2 bufferDistance filterId"
  using assms by (simp add: cache_key_def generateCacheKey_def toFixed_same)

lemma toFixed4_example_down: "toFixed ts 4 48.00004 = ''48.0000''"
  by (simp add: toFixed_def fixed_digits_def Let_def nat_digits_lt10 nat_digits_ge10 digit_char_def)

lemma toFixed4_example_up: "toFixed ts 4 48.00006 = ''48.0001''"
  by (simp add: toFixed_def fixed_digits_def Let_def nat_digits_lt10 nat_digits_ge10 digit_char_def)

text \<open>
  C3 as stated fails: \<^verbatim>\<open>toFixed(4)\<close> rounds, so the norths 48.00004 and 48.00006, which
  differ only in the 5th decimal, are rendered \<^verbatim>\<open>48.0000\<close> and \<^verbatim>\<open>48.0001\<close> and the keys
  differ.
\<close>

theorem cache_key_fifth_decimal_differs:
  "cache_key integer_toString \<lparr>north = 48.00004, south = 47.9, east = 2.1, west = 2\<rparr> 100
     ''potable-only'' \<noteq>
   cache_key integer_toString \<lparr>north = 48.00006, south = 47.9, east = 2.1, west = 2\<rparr> 100
     ''potable-only''"
proof -
  have n1: "north \<lparr>north = 48.00004, south = 47.9, east = 2.1, west = (2::real)\<rparr> = 48.00004"
    and n2: "north \<lparr>north = 48.00006, south = 47.9, east = 2.1, west = (2::real)\<rparr> = 48.00006"
    by simp_all
  show ?thesis
    unfolding cache_key_def generateCacheKey_def Let_def n1 n2
      toFixed4_example_down toFixed4_example_up
    by simp
qed

theorem cache_key_collision_witness:
  "same_fixed4 48.00001 48.00004 \<and> same_fixed4 47.9 47.9 \<and> same_fixed4 2.1 2.1 \<and>
   same_fixed4 2 2 \<and>
   cache_key integer_toString \<lparr>north = 48.00001, south = 47.9, east = 2.1, west = 2\<rparr> 100
     ''potable-only'' =
   cache_key integer_toString \<lparr>north = 48.00004, south = 47.9, east = 2.1, west = 2\<rparr> 100
     ''potable-only''"
proof -
  have h: "same_fixed4 48.00001 48.00004" "same_fixed4 47.9 47.9" "same_fixed4 2.1 2.1"
    "same_fixed4 2 2"
    by (simp_all add: same_fixed4_def)
  show ?thesis
    using h cache_key_collision
      [of "\<lparr>north = 48.00001, south = 47.9, east = 2.1, west = 2\<rparr>"
          "\<lparr>north = 48.00004, south = 47.9, east = 2.1, west = 2\<rparr>"
          integer_toString 100 "''potable-only''"]
    by simp
qed

section \<open>Properties of the cache\<close>










section \<open>Properties of the query orchestrator\<close>

lemma element_step_append:
  "element_step g b p e acc = acc @ element_step g b p e []"
  by (simp add: element_step_def split: option.splits)

lemma fold_element_step:
  "fold (element_step g b p) els acc = acc @ concat (map (\<lambda>e. element_step g b p e []) els)"
proof (induction els arbitrary: acc)
  case Nil
  show ?case by simp
next
  case (Cons e els)
  have "fold (element_step g b p) (e # els) acc = fold (element_step g b p) els (element_step g b p e acc)"
    by simp
  also have "\<dots> = element_step g b p e acc @ concat (map (\<lambda>e. element_step g b p e []) els)"
    by (rule Cons.IH)
  also have "element_step g b p e acc = acc @ element_step g b p e []"
    by (rule element_step_append)
  finally show ?case by simp
qed

lemma process_elements_concat:
  "process_elements g b p els = concat (map (\<lambda>e. element_step g b p e []) els)"
  by (simp add: process_elements_def fold_element_step)

lemma element_step_zero:
  "el_lat e = Some 0 \<or> el_lon e = Some 0 \<Longrightarrow> element_step g b p e [] = []"
  by (auto simp: element_step_def is_located_node_def)

lemma processWaterPoint_coordinates:
  "processWaterPoint nd g b p = Some wp \<Longrightarrow> wp_lat wp = node_lat nd \<and> wp_lon wp = node_lon nd"
  by (auto simp: processWaterPoint_def Let_def split: if_splits)

lemma element_step_nonzero:
  assumes "wp \<in> set (element_step g b p e [])"
  shows "wp_lat wp \<noteq> 0 \<and> wp_lon wp \<noteq> 0"
proof -
  have loc: "is_located_node e"
  proof (rule ccontr)
    assume "\<not> is_located_node e"
    then have "element_step g b p e [] = []" by (simp add: element_step_def)
    with assms show False by simp
  qed
  from loc have "\<exists>la. el_lat e = Some la \<and> la \<noteq> 0"
    by (cases "el_lat e") (simp_all add: is_located_node_def)
  then obtain la where la: "el_lat e = Some la" "la \<noteq> 0" by blast
  from loc have "\<exists>lo. el_lon e = Some lo \<and> lo \<noteq> 0"
    by (cases "el_lon e") (simp_all add: is_located_node_def)
  then obtain lo where lo: "el_lon e = Some lo" "lo \<noteq> 0" by blast
  from la lo obtain nd where nd: "as_node e = Some nd" "node_lat nd = la" "node_lon nd = lo"
    by (simp add: as_node_def)
  have "processWaterPoint nd g b p = Some wp"
  proof (cases "processWaterPoint nd g b p")
    case None
    with loc nd(1) have "element_step g b p e [] = []" by (simp add: element_step_def)
    with assms show ?thesis by simp
  next
    case (Some wp')
    with loc nd(1) have "element_step g b p e [] = [wp']" by (simp add: element_step_def)
    with assms Some show ?thesis by simp
  qed
  then show ?thesis
    using processWaterPoint_coordinates [of nd g b p wp] nd la lo by simp
qed

lemma process_elements_nonzero:
  "wp \<in> set (process_elements g b p els) \<Longrightarrow> wp_lat wp \<noteq> 0 \<and> wp_lon wp \<noteq> 0"
  unfolding process_elements_concat using element_step_nonzero by fastforce

lemma process_elements_screen:
  "process_elements g b p (filter (\<lambda>e. el_lat e \<noteq> Some 0 \<and> el_lon e \<noteq> Some 0) els) =
   process_elements g b p els"
  unfolding process_elements_concat
proof (induction els)
  case Nil
  show ?case by simp
next
  case (Cons e els)
  then show ?case
    using element_step_zero [of e g b p] by auto
qed

lemma findWaterPoints_success:
  assumes "fst (cache_get json t_get (cache_key numToString (bounds gpxData) bufferDistance
              filterPreset) st) = None"
    and "fetch (buildOverpassQuery numToString gpxData bufferDistance (select_preset filterPreset)) =
           Response True status (BodyData (Some els))"
  shows "fst (findWaterPoints numToString json accepts fetch t_get t_set st gpxData bufferDistance
              filterPreset) =
         sort_key distanceFromStart
           (process_elements gpxData bufferDistance (select_preset filterPreset) els)"
  using assms
  by (auto simp: findWaterPoints_def findWaterPoints_try_def Let_def
      split: prod.splits option.splits)

text \<open>
  C8: after a cache miss and a successful response, no water point of the result has
  latitude 0 or longitude 0, and the result is the one obtained from the response without
  its elements of latitude 0 or longitude 0: such elements are screened out before
  classification and filtering.
\<close>

theorem zero_coordinates_never_included:
  assumes "fst (cache_get json t_get (cache_key numToString (bounds gpxData) bufferDistance
              filterPreset) st) = None"
    and "fetch (buildOverpassQuery numToString gpxData bufferDistance (select_preset filterPreset)) =
           Response True status (BodyData (Some els))"
  shows "(\<forall>wp \<in> set (fst (findWaterPoints numToString json accepts fetch t_get t_set st gpxData
                            bufferDistance filterPreset)).
            wp_lat wp \<noteq> 0 \<and> wp_lon wp \<noteq> 0) \<and>
         fst (findWaterPoints numToString json accepts fetch t_get t_set st gpxData bufferDistance
              filterPreset) =
         sort_key distanceFromStart
           (process_elements gpxData bufferDistance (select_preset filterPreset)
              (filter (\<lambda>e. el_lat e \<noteq> Some 0 \<and> el_lon e \<noteq> Some 0) els))"
proof -
  have "fst (findWaterPoints numToString json accepts fetch t_get t_set st gpxData bufferDistance
              filterPreset) =
        sort_key distanceFromStart
          (process_elements gpxData bufferDistance (select_preset filterPreset) els)"
    using assms by (rule findWaterPoints_success)
  then show ?thesis
    unfolding process_elements_screen using process_elements_nonzero by auto
qed

theorem zero_coordinates_never_included_witness:
  "fst (cache_get example_points_json 0
          (cache_key integer_toString (bounds example_route) 100 ''potable-only'') []) = None \<and>
   example_zero_fetch
     (buildOverpassQuery integer_toString example_route 100 (select_preset ''potable-only'')) =
     Response True 200 (BodyData (Some [example_zero_element])) \<and>
   el_lat example_zero_element = Some 0 \<and>
   fst (findWaterPoints integer_toString example_points_json without_quota example_zero_fetch 0 1 []
          example_route 100 ''potable-only'') = []"
proof -
  have m: "fst (cache_get example_points_json 0
          (cache_key integer_toString (bounds example_route) 100 ''potable-only'') []) = None"
    by (simp add: cache_get_def getItem_def)
  have r: "example_zero_fetch
     (buildOverpassQuery integer_toString example_route 100 (select_preset ''potable-only'')) =
     Response True 200 (BodyData (Some [example_zero_element]))"
    by (simp add: example_zero_fetch_def)
  have z: "el_lat example_zero_element = Some 0"
    by (simp add: example_zero_element_def)
  have e: "process_elements example_route 100 (select_preset ''potable-only'')
      (filter (\<lambda>e. el_lat e \<noteq> Some 0 \<and> el_lon e \<noteq> Some 0) [example_zero_element]) = []"
    using z by (simp add: process_elements_def)
  show ?thesis
    using m r z e zero_coordinates_never_included
      [where json = example_points_json and t_get = 0 and numToString = integer_toString
         and gpxData = example_route and bufferDistance = 100 and filterPreset = "''potable-only''"
         and st = "[]" and fetch = example_zero_fetch and status = 200
         and accepts = without_quota
         and els = "[example_zero_element]" and t_set = 1]
    by simp
qed

text \<open>
  C4: after a cache miss, when the fetch is rejected, the status is not a success, the body
  is not JSON, is \<^verbatim>\<open>null\<close> or has no \<^verbatim>\<open>elements\<close>, \<open>findWaterPoints\<close> returns the empty
  list.
\<close>

theorem fetch_failure_gives_empty:
  assumes "fst (cache_get json t_get (cache_key numToString (bounds gpxData) bufferDistance
              filterPreset) st) = None"
    and "fetch (buildOverpassQuery numToString gpxData bufferDistance (select_preset filterPreset)) =
           outcome"
    and "outcome = NetworkError \<or> (\<exists>status body. outcome = Response False status body) \<or>
         (\<exists>status. outcome = Response True status BodyNotJson) \<or>
         (\<exists>status. outcome = Response True status BodyNull) \<or>
         (\<exists>status. outcome = Response True status (BodyData None))"
  shows "fst (findWaterPoints numToString json accepts fetch t_get t_set st gpxData bufferDistance
              filterPreset) = []"
  using assms
  by (auto simp: findWaterPoints_def findWaterPoints_try_def Let_def
      split: prod.splits option.splits)

theorem fetch_failure_gives_empty_witness:
  "fst (cache_get example_points_json 0
          (cache_key integer_toString (bounds example_route) 100 ''potable-only'') []) = None \<and>
   fst (findWaterPoints integer_toString example_points_json without_quota (\<lambda>query. NetworkError)
          0 1 []
          example_route 100 ''potable-only'') = []"
proof -
  have m: "fst (cache_get example_points_json 0
          (cache_key integer_toString (bounds example_route) 100 ''potable-only'') []) = None"
    by (simp add: cache_get_def getItem_def)
  show ?thesis
    using m fetch_failure_gives_empty
      [where json = example_points_json and t_get = 0 and numToString = integer_toString
         and gpxData = example_route and bufferDistance = 100 and filterPreset = "''potable-only''"
         and st = "[]" and fetch = "\<lambda>query. NetworkError" and outcome = NetworkError
         and accepts = without_quota
         and t_set = 1]
    by simp
qed

section \<open>Properties of the track parser\<close>

lemmas pf_defs = parseFloat_def unsigned_literal_def is_space_def is_digit_def digit_value_def
  digits_value_def exponent_value_def scale10_def num_negate_def Let_def

lemma parseFloat_examples:
  "parseFloat ''48.1'' = Num 48.1"
  "parseFloat ''  -1.5e2xyz'' = Num (- 150)"
  "parseFloat ''.5'' = Num 0.5"
  "parseFloat ''abc'' = NaN"
  "parseFloat [] = NaN"
  "parseFloat ''Infinity'' = Infinity"
  "parseFloat ''-Infinity'' = NegInfinity"
  by (simp_all add: pf_defs)

lemma fold_point_step:
  "fold point_step ps (cs, a, b, c, d) =
     (cs @ filter is_number_pair (map point_coordinate ps),
      fold (\<lambda>c m. Math_min m (snd c)) (filter is_number_pair (map point_coordinate ps)) a,
      fold (\<lambda>c m. Math_max m (snd c)) (filter is_number_pair (map point_coordinate ps)) b,
      fold (\<lambda>c m. Math_min m (fst c)) (filter is_number_pair (map point_coordinate ps)) c,
      fold (\<lambda>c m. Math_max m (fst c)) (filter is_number_pair (map point_coordinate ps)) d)"
proof (induction ps arbitrary: cs a b c d)
  case Nil
  show ?case by simp
next
  case (Cons p ps)
  show ?case
  proof (cases "is_number_pair (point_coordinate p)")
    case True
    then have "point_step p (cs, a, b, c, d) =
        (cs @ [point_coordinate p], Math_min a (snd (point_coordinate p)),
         Math_max b (snd (point_coordinate p)), Math_min c (fst (point_coordinate p)),
         Math_max d (fst (point_coordinate p)))"
      by (simp add: point_step_def point_coordinate_def is_number_pair_def isNaN_def Let_def)
    with True show ?thesis by (simp add: Cons.IH)
  next
    case False
    then have "point_step p (cs, a, b, c, d) = (cs, a, b, c, d)"
      by (auto simp: point_step_def point_coordinate_def is_number_pair_def isNaN_def Let_def)
    with False show ?thesis by (simp add: Cons.IH)
  qed
qed

lemma selected_points_eq:
  "(if length (trkpts doc) > 0 then trkpts doc else rtepts doc) = selected_points doc"
  by (simp add: selected_points_def)

lemma parseGPX_try_eq:
  "parseGPX_try doc =
     (if parsererror doc then Inl InvalidXmlFormat
      else if trkpts doc = [] \<and> rtepts doc = [] then Inl NoTrackOrRoutePoints
      else if filter is_number_pair (map point_coordinate (selected_points doc)) = []
      then Inl NoValidCoordinates
      else Inr \<lparr>name = first_nonempty [trk_name doc, rte_name doc, metadata_name doc],
                coordinates = filter is_number_pair (map point_coordinate (selected_points doc)),
                bounds = bounds_of (filter is_number_pair (map point_coordinate (selected_points doc))),
                totalDistance =
                  total_distance (filter is_number_pair (map point_coordinate (selected_points doc)))\<rparr>)"
  unfolding parseGPX_try_def Let_def selected_points_eq fold_point_step
  by (simp add: bounds_of_def)

text \<open>
  C2 (as amended): a point whose latitude or longitude attribute (a missing or empty
  attribute reads as \<^verbatim>\<open>'0'\<close>) parses to NaN is skipped, and every other point is retained,
  in document order: the coordinates of the route are those of the points whose two
  attributes parse to a number other than NaN, and its bounds are computed from these
  coordinates only. The parse fails only on a parser error, on a document without track and
  route points, or when no point is retained.
\<close>

theorem parseGPX_skips_NaN_points:
  "(parseGPX doc = None \<longleftrightarrow>
      parsererror doc \<or> (trkpts doc = [] \<and> rtepts doc = []) \<or>
      filter is_number_pair (map point_coordinate (selected_points doc)) = []) \<and>
   (\<forall>g. parseGPX doc = Some g \<longrightarrow>
      coordinates g = filter is_number_pair (map point_coordinate (selected_points doc)) \<and>
      bounds g = bounds_of (coordinates g))"
  by (auto simp: parseGPX_def parseGPX_try_eq)

lemma example_document_retained:
  "filter is_number_pair (map point_coordinate (selected_points example_document)) =
     [(Num 2.0, Num 48.0), (Num 2.1, Num 48.1), (Num 2.3, Num 48.2)]"
  by (simp add: example_document_def selected_points_def point_coordinate_def
      is_number_pair_def attribute_or_zero_def pf_defs)

lemma example_bounds:
  "bounds_of [(Num 2.0, Num 48.0), (Num 2.1, Num 48.1), (Num 2.3, Num 48.2)] =
     \<lparr>north = Num 48.2, south = Num 48.0, east = Num 2.3, west = Num 2.0\<rparr>"
  by (simp add: bounds_of_def Math_min_def Math_max_def isNaN_def)

theorem parseGPX_skips_NaN_points_witness:
  "parseGPX example_document \<noteq> None \<and>
   map_option coordinates (parseGPX example_document) =
     Some [(Num 2.0, Num 48.0), (Num 2.1, Num 48.1), (Num 2.3, Num 48.2)] \<and>
   map_option (\<lambda>g. length (coordinates g)) (parseGPX example_document) = Some 3 \<and>
   map_option bounds (parseGPX example_document) =
     Some \<lparr>north = Num 48.2, south = Num 48.0, east = Num 2.3, west = Num 2.0\<rparr>"
proof -
  have t: "trkpts example_document \<noteq> []" "\<not> parsererror example_document"
    by (simp_all add: example_document_def)
  have nn: "parseGPX example_document \<noteq> None"
    using parseGPX_skips_NaN_points [of example_document] t
    by (simp add: example_document_retained)
  then obtain g where g: "parseGPX example_document = Some g" by blast
  then have c: "coordinates g = [(Num 2.0, Num 48.0), (Num 2.1, Num 48.1), (Num 2.3, Num 48.2)]"
    and b: "bounds g = bounds_of (coordinates g)"
    using parseGPX_skips_NaN_points [of example_document]
    by (simp_all add: example_document_retained)
  show ?thesis
    using g c b example_bounds by simp
qed

text \<open>
  C2 as stated fails: a point whose latitude attribute is \<^verbatim>\<open>Infinity\<close> does not parse to a
  finite number, and it is retained.
\<close>

theorem infinite_latitude_retained:
  "map_option coordinates (parseGPX infinite_document) = Some [(Num 2.0, Infinity)]"
proof -
  have "filter is_number_pair (map point_coordinate (selected_points infinite_document)) =
      [(Num 2.0, Infinity)]"
    by (simp add: infinite_document_def selected_points_def point_coordinate_def
        is_number_pair_def attribute_or_zero_def pf_defs)
  moreover have "trkpts infinite_document \<noteq> []" "\<not> parsererror infinite_document"
    by (simp_all add: infinite_document_def)
  ultimately show ?thesis
    by (simp add: parseGPX_def parseGPX_try_eq)
qed

end
